theory Spec2Isabelle
  imports Main "HOL-Library.Multiset"
begin

section \<open>Data model\<close>

text \<open>
  \<^verbatim>\<open>block.ChainInfo\<close> is declared outside the sources at hand. The dispatcher reads two
  things of it: \<^verbatim>\<open>ci.Head.String()\<close>, the canonical string form of the tipset key, and
  \<^verbatim>\<open>Height\<close>, which \<^verbatim>\<open>rawQueue.Less\<close> compares with \<^verbatim>\<open>>\<close>. The record keeps the
  head by its string form; the type of heights is a parameter with a linear order (it
  covers an unsigned as well as a signed epoch), and so is the provenance marker, which
  the code never reads.
\<close>

record ('h, 'o) ChainInfo =
  Head :: string
  Height :: 'h
  Origin :: 'o

text \<open>\<^verbatim>\<open>type SyncRequest struct { block.ChainInfo; index int }\<close>\<close>

record ('h, 'o) SyncRequest =
  ChainInfo :: "('h, 'o) ChainInfo"
  index :: int

text \<open>
  The queue holds pointers (\<^verbatim>\<open>[]*SyncRequest\<close>) and writes the \<^verbatim>\<open>index\<close> field through
  them, so the \<^verbatim>\<open>SyncRequest\<close> objects live in an explicit memory: the list of all
  objects allocated so far, an address being a position in it. \<open>None\<close> is the nil
  pointer.
\<close>

type_synonym ptr = "nat option"

type_synonym ('h, 'o) memory = "('h, 'o) SyncRequest list"

type_synonym rawQueue = "ptr list"

record TargetQueue =
  q :: rawQueue

text \<open>\<^verbatim>\<open>targetSet map[string]struct{}\<close> and \<^verbatim>\<open>targetQ *TargetQueue\<close>; the mutex is not
  modelled (every operation below runs to its end).\<close>

record Dispatcher =
  targetSet :: "string \<rightharpoonup> unit"
  targetQ :: TargetQueue

text \<open>Run-time panics of Go, and the two declared errors of the package.\<close>

datatype panic = IndexOutOfRange | NilDereference

datatype error = errBadPush | errBadPop

section \<open>Go primitives\<close>

text \<open>\<^verbatim>\<open>s[i]\<close> with its bounds check; Go's \<^verbatim>\<open>int\<close> indices are integers here (a slice
  of pointers is far shorter than \<open>2^62\<close>, so no index computation below wraps).\<close>

definition elem_at :: "'a list \<Rightarrow> int \<Rightarrow> panic + 'a" where
  "elem_at xs i =
     (if 0 \<le> i \<and> i < int (length xs) then Inr (xs ! nat i) else Inl IndexOutOfRange)"

text \<open>Reading through a pointer. A Go pointer is nil or refers to a live object; an
  address beyond the memory is treated as nil.\<close>

definition deref :: "('h, 'o) memory \<Rightarrow> ptr \<Rightarrow> panic + ('h, 'o) SyncRequest" where
  "deref m p =
     (case p of
        None \<Rightarrow> Inl NilDereference
      | Some a \<Rightarrow> if a < length m then Inr (m ! a) else Inl NilDereference)"

text \<open>\<^verbatim>\<open>p.index = v\<close>\<close>

definition set_index :: "('h, 'o) memory \<Rightarrow> ptr \<Rightarrow> int \<Rightarrow> panic + ('h, 'o) memory" where
  "set_index m p v =
     (case p of
        None \<Rightarrow> Inl NilDereference
      | Some a \<Rightarrow>
          if a < length m then Inr (m[a := (m ! a)\<lparr>index := v\<rparr>]) else Inl NilDereference)"

text \<open>\<^verbatim>\<open>&SyncRequest{...}\<close>: a fresh object at the next address.\<close>

definition alloc :: "('h, 'o) memory \<Rightarrow> ('h, 'o) SyncRequest \<Rightarrow> ('h, 'o) memory \<times> ptr" where
  "alloc m r = (m @ [r], Some (length m))"

text \<open>Go's integer division truncates toward zero.\<close>

definition quo :: "int \<Rightarrow> int \<Rightarrow> int" where
  "quo a b = (if (a < 0) = (b < 0) then \<bar>a\<bar> div \<bar>b\<bar> else - (\<bar>a\<bar> div \<bar>b\<bar>))"

section \<open>rawQueue\<close>

text \<open>\<^verbatim>\<open>func (rq rawQueue) Len() int { return len(rq) }\<close>\<close>

definition rawQueue_Len :: "rawQueue \<Rightarrow> int" where
  "rawQueue_Len rq = int (length rq)"

text \<open>\<^verbatim>\<open>return rq[i].Height > rq[j].Height\<close>\<close>

definition rawQueue_Less ::
  "('h::linorder, 'o) memory \<times> rawQueue \<Rightarrow> int \<Rightarrow> int \<Rightarrow> panic + bool" where
  "rawQueue_Less s i j =
     (case elem_at (snd s) i of
        Inl e \<Rightarrow> Inl e
      | Inr pi \<Rightarrow>
     (case deref (fst s) pi of
        Inl e \<Rightarrow> Inl e
      | Inr ri \<Rightarrow>
     (case elem_at (snd s) j of
        Inl e \<Rightarrow> Inl e
      | Inr pj \<Rightarrow>
     (case deref (fst s) pj of
        Inl e \<Rightarrow> Inl e
      | Inr rj \<Rightarrow> Inr (Height (ChainInfo rj) < Height (ChainInfo ri))))))"

text \<open>
  \<^verbatim>\<open>rq[i], rq[j] = rq[j], rq[i]; rq[i].index = j; rq[j].index = i\<close>.
  The right-hand sides are read first (a bounds panic leaves everything as it was); a
  nil element panics after the two slots have been exchanged, and the exchange stays.
\<close>

definition rawQueue_Swap ::
  "('h, 'o) memory \<times> rawQueue \<Rightarrow> int \<Rightarrow> int \<Rightarrow> (('h, 'o) memory \<times> rawQueue) \<times> panic option" where
  "rawQueue_Swap s i j =
     (case elem_at (snd s) j of
        Inl e \<Rightarrow> (s, Some e)
      | Inr pj \<Rightarrow>
     (case elem_at (snd s) i of
        Inl e \<Rightarrow> (s, Some e)
      | Inr pi \<Rightarrow>
     (let rq = ((snd s)[nat i := pj])[nat j := pi] in
      case set_index (fst s) (rq ! nat i) j of
        Inl e \<Rightarrow> ((fst s, rq), Some e)
      | Inr m1 \<Rightarrow>
     (case set_index m1 (rq ! nat j) i of
        Inl e \<Rightarrow> ((m1, rq), Some e)
      | Inr m2 \<Rightarrow> ((m2, rq), None)))))"

text \<open>
  \<^verbatim>\<open>n := len(*rq); syncReq := x.(*SyncRequest); syncReq.index = n; *rq = append(*rq, syncReq)\<close>.
  The only caller passes a \<^verbatim>\<open>*SyncRequest\<close>, so the type assertion holds; a nil pointer
  panics at the assignment, before the append.
\<close>

definition rawQueue_Push ::
  "('h, 'o) memory \<times> rawQueue \<Rightarrow> ptr \<Rightarrow> (('h, 'o) memory \<times> rawQueue) \<times> panic option" where
  "rawQueue_Push s x =
     (let n = int (length (snd s)) in
      case set_index (fst s) x n of
        Inl e \<Rightarrow> (s, Some e)
      | Inr m1 \<Rightarrow> ((m1, snd s @ [x]), None))"

text \<open>
  \<^verbatim>\<open>old := *rq; n := len(old); item := old[n-1]; old[n-1] = nil; item.index = -1;
  *rq = old[0 : n-1]; return item\<close>
\<close>

definition rawQueue_Pop ::
  "('h, 'o) memory \<times> rawQueue \<Rightarrow> (('h, 'o) memory \<times> rawQueue) \<times> (panic + ptr)" where
  "rawQueue_Pop s =
     (let old = snd s; n = int (length old) in
      case elem_at old (n - 1) of
        Inl e \<Rightarrow> (s, Inl e)
      | Inr item \<Rightarrow>
     (let old1 = old[nat (n - 1) := None] in
      case set_index (fst s) item (- 1) of
        Inl e \<Rightarrow> ((fst s, old1), Inl e)
      | Inr m1 \<Rightarrow> ((m1, take (nat (n - 1)) old1), Inr item)))"

section \<open>container/heap over a rawQueue\<close>

text \<open>
  Modelled from the spec: the source imports \<^verbatim>\<open>container/heap\<close> of the Go standard
  library, whose code is not among the sources at hand. Section 4.3 of the
  specification describes it: Push appends, then sifts the new element toward the root
  while it exceeds its parent; Pop exchanges the root with the last element, sifts the
  new root down toward its larger child within the shortened prefix, and removes the
  last slot. The loops below are the library's \<^verbatim>\<open>up\<close> and \<^verbatim>\<open>down\<close>, calling the
  queue's \<^verbatim>\<open>Less\<close> and \<^verbatim>\<open>Swap\<close>:

  \<^verbatim>\<open>for { i := (j - 1) / 2; if i == j || !h.Less(j, i) { break }; h.Swap(i, j); j = i }\<close>
\<close>

function heap_up ::
  "('h::linorder, 'o) memory \<times> rawQueue \<Rightarrow> int \<Rightarrow> (('h, 'o) memory \<times> rawQueue) \<times> panic option" where
  "heap_up s j =
     (let i = quo (j - 1) 2 in
      if i = j then (s, None)
      else
        (case rawQueue_Less s j i of
           Inl e \<Rightarrow> (s, Some e)
         | Inr b \<Rightarrow>
             if \<not> b then (s, None)
             else
               (case rawQueue_Swap s i j of
                  (s1, Some e) \<Rightarrow> (s1, Some e)
                | (s1, None) \<Rightarrow> heap_up s1 i)))"
  by pat_completeness auto
termination
  by (relation "measure (\<lambda>(s, j). nat \<bar>j\<bar>)") (auto simp: quo_def split: if_splits)

declare heap_up.simps [simp del]

text \<open>
  \<^verbatim>\<open>for { j1 := 2*i + 1; if j1 >= n || j1 < 0 { break }; j := j1;
  if j2 := j1 + 1; j2 < n && h.Less(j2, j1) { j = j2 };
  if !h.Less(j, i) { break }; h.Swap(i, j); i = j }\<close>;
  the loop yields the final \<open>i\<close>.
\<close>

function down_loop ::
  "('h::linorder, 'o) memory \<times> rawQueue \<Rightarrow> int \<Rightarrow> int \<Rightarrow> (('h, 'o) memory \<times> rawQueue) \<times> (panic + int)" where
  "down_loop s i n =
     (let j1 = 2 * i + 1 in
      if j1 \<ge> n \<or> j1 < 0 then (s, Inr i)
      else
        (case (if j1 + 1 < n then rawQueue_Less s (j1 + 1) j1 else Inr False) of
           Inl e \<Rightarrow> (s, Inl e)
         | Inr b2 \<Rightarrow>
            (let j = (if b2 then j1 + 1 else j1) in
             case rawQueue_Less s j i of
               Inl e \<Rightarrow> (s, Inl e)
             | Inr b \<Rightarrow>
                 if \<not> b then (s, Inr i)
                 else
                   (case rawQueue_Swap s i j of
                      (s1, Some e) \<Rightarrow> (s1, Inl e)
                    | (s1, None) \<Rightarrow> down_loop s1 j n))))"
  by pat_completeness auto
termination
  by (relation "measure (\<lambda>(s, i, n). nat (n - i))") (auto split: if_splits)

declare down_loop.simps [simp del]

text \<open>\<^verbatim>\<open>func down(h Interface, i0, n int) bool { ...; return i > i0 }\<close>\<close>

definition heap_down ::
  "('h::linorder, 'o) memory \<times> rawQueue \<Rightarrow> int \<Rightarrow> int \<Rightarrow> (('h, 'o) memory \<times> rawQueue) \<times> (panic + bool)" where
  "heap_down s i0 n =
     (case down_loop s i0 n of
        (s1, Inl e) \<Rightarrow> (s1, Inl e)
      | (s1, Inr i) \<Rightarrow> (s1, Inr (i > i0)))"

text \<open>\<^verbatim>\<open>n := h.Len(); for i := n/2 - 1; i >= 0; i-- { down(h, i, n) }\<close>\<close>

function init_loop ::
  "('h::linorder, 'o) memory \<times> rawQueue \<Rightarrow> int \<Rightarrow> int \<Rightarrow> (('h, 'o) memory \<times> rawQueue) \<times> panic option" where
  "init_loop s i n =
     (if i \<ge> 0 then
        (case heap_down s i n of
           (s1, Inl e) \<Rightarrow> (s1, Some e)
         | (s1, Inr b) \<Rightarrow> init_loop s1 (i - 1) n)
      else (s, None))"
  by pat_completeness auto
termination
  by (relation "measure (\<lambda>(s, i, n). nat (i + 1))") auto

declare init_loop.simps [simp del]

definition heap_Init ::
  "('h::linorder, 'o) memory \<times> rawQueue \<Rightarrow> (('h, 'o) memory \<times> rawQueue) \<times> panic option" where
  "heap_Init s = (let n = rawQueue_Len (snd s) in init_loop s (quo n 2 - 1) n)"

text \<open>\<^verbatim>\<open>func Push(h Interface, x any) { h.Push(x); up(h, h.Len()-1) }\<close>\<close>

definition heap_Push ::
  "('h::linorder, 'o) memory \<times> rawQueue \<Rightarrow> ptr \<Rightarrow> (('h, 'o) memory \<times> rawQueue) \<times> panic option" where
  "heap_Push s x =
     (case rawQueue_Push s x of
        (s1, Some e) \<Rightarrow> (s1, Some e)
      | (s1, None) \<Rightarrow> heap_up s1 (rawQueue_Len (snd s1) - 1))"

text \<open>\<^verbatim>\<open>func Pop(h Interface) any { n := h.Len() - 1; h.Swap(0, n); down(h, 0, n);
  return h.Pop() }\<close>\<close>

definition heap_Pop ::
  "('h::linorder, 'o) memory \<times> rawQueue \<Rightarrow> (('h, 'o) memory \<times> rawQueue) \<times> (panic + ptr)" where
  "heap_Pop s =
     (let n = rawQueue_Len (snd s) - 1 in
      case rawQueue_Swap s 0 n of
        (s1, Some e) \<Rightarrow> (s1, Inl e)
      | (s1, None) \<Rightarrow>
     (case heap_down s1 0 n of
        (s2, Inl e) \<Rightarrow> (s2, Inl e)
      | (s2, Inr b) \<Rightarrow> rawQueue_Pop s2))"

section \<open>TargetQueue\<close>

text \<open>\<^verbatim>\<open>rq := make(rawQueue, 0); heap.Init(&rq); return &TargetQueue{q: rq}\<close>;
  nothing recovers a panic of \<^verbatim>\<open>heap.Init\<close> here.\<close>

definition NewTargetQueue :: "('h::linorder, 'o) memory \<Rightarrow> panic + TargetQueue" where
  "NewTargetQueue m =
     (case heap_Init (m, []) of
        (s1, Some e) \<Rightarrow> Inl e
      | (s1, None) \<Rightarrow> Inr \<lparr>q = snd s1\<rparr>)"

text \<open>
  \<^verbatim>\<open>defer func() { if r := recover(); r != nil { err = errBadPush } }();
  heap.Push(&tq.q, req); return nil\<close>.
  A recovered panic keeps whatever had been written before it.
\<close>

definition TargetQueue_Push ::
  "('h::linorder, 'o) memory \<times> TargetQueue \<Rightarrow> ptr \<Rightarrow> (('h, 'o) memory \<times> TargetQueue) \<times> error option" where
  "TargetQueue_Push s req =
     (case heap_Push (fst s, q (snd s)) req of
        (s1, Some e) \<Rightarrow> ((fst s1, (snd s)\<lparr>q := snd s1\<rparr>), Some errBadPush)
      | (s1, None) \<Rightarrow> ((fst s1, (snd s)\<lparr>q := snd s1\<rparr>), None))"

text \<open>
  \<^verbatim>\<open>defer func() { if r := recover(); r != nil { req = nil; err = errBadPop } }();
  return heap.Pop(&tq.q).(*SyncRequest), nil\<close>
\<close>

definition TargetQueue_Pop ::
  "('h::linorder, 'o) memory \<times> TargetQueue \<Rightarrow> (('h, 'o) memory \<times> TargetQueue) \<times> ptr \<times> error option" where
  "TargetQueue_Pop s =
     (case heap_Pop (fst s, q (snd s)) of
        (s1, Inl e) \<Rightarrow> ((fst s1, (snd s)\<lparr>q := snd s1\<rparr>), None, Some errBadPop)
      | (s1, Inr req) \<Rightarrow> ((fst s1, (snd s)\<lparr>q := snd s1\<rparr>), req, None))"

text \<open>\<^verbatim>\<open>return len(tq.q)\<close>\<close>

definition TargetQueue_Len :: "TargetQueue \<Rightarrow> int" where
  "TargetQueue_Len tq = int (length (q tq))"

section \<open>Dispatcher\<close>

text \<open>\<^verbatim>\<open>return &Dispatcher{targetSet: make(map[string]struct{}), targetQ: NewTargetQueue()}\<close>\<close>

definition NewDispatcher :: "('h::linorder, 'o) memory \<Rightarrow> panic + Dispatcher" where
  "NewDispatcher m =
     (case NewTargetQueue m of
        Inl e \<Rightarrow> Inl e
      | Inr tq \<Rightarrow> Inr \<lparr>targetSet = Map.empty, targetQ = tq\<rparr>)"

text \<open>
  \<^verbatim>\<open>_, targeting := d.targetSet[ci.Head.String()]; if targeting { return nil };
  err := d.targetQ.Push(&SyncRequest{ChainInfo: ci}); if err != nil { return err };
  d.targetSet[ci.Head.String()] = struct{}{}; return nil\<close>
\<close>

definition receive ::
  "('h::linorder, 'o) memory \<times> Dispatcher \<Rightarrow> ('h, 'o) ChainInfo \<Rightarrow>
     (('h, 'o) memory \<times> Dispatcher) \<times> error option" where
  "receive s ci =
     (if targetSet (snd s) (Head ci) \<noteq> None then (s, None)
      else
        (let (m1, req) = alloc (fst s) \<lparr>ChainInfo = ci, index = 0\<rparr> in
         case TargetQueue_Push (m1, targetQ (snd s)) req of
           (s1, Some err) \<Rightarrow> ((fst s1, (snd s)\<lparr>targetQ := snd s1\<rparr>), Some err)
         | (s1, None) \<Rightarrow>
             ((fst s1, (snd s)\<lparr>targetQ := snd s1, targetSet := (targetSet (snd s))(Head ci \<mapsto> ())\<rparr>),
              None)))"

text \<open>\<^verbatim>\<open>func (d *Dispatcher) ReceiveHello(ci block.ChainInfo) error { return d.receive(ci) }\<close>
  and its two siblings.\<close>

definition ReceiveHello ::
  "('h::linorder, 'o) memory \<times> Dispatcher \<Rightarrow> ('h, 'o) ChainInfo \<Rightarrow>
     (('h, 'o) memory \<times> Dispatcher) \<times> error option" where
  "ReceiveHello s ci = receive s ci"

definition ReceiveOwnBlock ::
  "('h::linorder, 'o) memory \<times> Dispatcher \<Rightarrow> ('h, 'o) ChainInfo \<Rightarrow>
     (('h, 'o) memory \<times> Dispatcher) \<times> error option" where
  "ReceiveOwnBlock s ci = receive s ci"

definition ReceiveGossipBlock ::
  "('h::linorder, 'o) memory \<times> Dispatcher \<Rightarrow> ('h, 'o) ChainInfo \<Rightarrow>
     (('h, 'o) memory \<times> Dispatcher) \<times> error option" where
  "ReceiveGossipBlock s ci = receive s ci"

section \<open>Notions used to state the properties\<close>

text \<open>A queue state is well formed when every slot holds a pointer to a live object
  (no nil, nothing beyond the memory).\<close>

definition wf :: "('h, 'o) memory \<times> rawQueue \<Rightarrow> bool" where
  "wf s = list_all (\<lambda>p. case p of None \<Rightarrow> False | Some a \<Rightarrow> a < length (fst s)) (snd s)"

text \<open>The heights of the queued targets, slot by slot.\<close>

definition heights :: "('h, 'o) memory \<times> rawQueue \<Rightarrow> 'h list" where
  "heights s = map (\<lambda>p. Height (ChainInfo (fst s ! the p))) (snd s)"

section \<open>The entry points and the error paths\<close>

text \<open>
  C8. For every dispatcher state and every chain head descriptor, ReceiveHello,
  ReceiveOwnBlock and ReceiveGossipBlock give the same error and the same resulting state
  as one another: each is the shared acceptance procedure receive.
\<close>

theorem entry_points_are_receive:
  "ReceiveHello s ci = receive s ci \<and> ReceiveOwnBlock s ci = receive s ci \<and>
   ReceiveGossipBlock s ci = receive s ci \<and>
   ReceiveHello s ci = ReceiveOwnBlock s ci \<and> ReceiveOwnBlock s ci = ReceiveGossipBlock s ci"
  by (simp add: ReceiveHello_def ReceiveOwnBlock_def ReceiveGossipBlock_def)

text \<open>
  C10. TargetQueue.Push with a nil pointer returns errBadPush (the nil dereference in
  rawQueue.Push is recovered) and leaves the memory and the queue as they were, whatever
  the state.
\<close>

theorem push_nil_is_errBadPush:
  "TargetQueue_Push s None = (s, Some errBadPush)"
  by (simp add: TargetQueue_Push_def heap_Push_def rawQueue_Push_def set_index_def)

text \<open>
  C5. TargetQueue.Pop on a queue of length 0 returns a nil target together with
  errBadPop, and the queue still has length 0 (nothing at all has changed).
\<close>

theorem pop_empty_is_errBadPop:
  "TargetQueue_Len tq = 0 \<Longrightarrow>
     TargetQueue_Pop (m, tq) = ((m, tq), None, Some errBadPop) \<and>
     TargetQueue_Len (snd (fst (TargetQueue_Pop (m, tq)))) = 0"
  by (simp add: TargetQueue_Len_def TargetQueue_Pop_def heap_Pop_def rawQueue_Len_def
      rawQueue_Swap_def elem_at_def)

theorem pop_empty_is_errBadPop_witness:
  "TargetQueue_Len \<lparr>q = []\<rparr> = 0 \<and>
   TargetQueue_Pop ([] :: (nat, unit) memory, \<lparr>q = []\<rparr>) = (([], \<lparr>q = []\<rparr>), None, Some errBadPop)"
  using pop_empty_is_errBadPop [of "\<lparr>q = []\<rparr>" "[] :: (nat, unit) memory"]
  by (simp add: TargetQueue_Len_def)

text \<open>
  C2. When the head's key is already in the dedup set, receive (through any of the three
  entry points) returns nil and changes neither the dedup set nor the queue, whatever the
  height of the new descriptor. The instance below submits the head A with height 10 and
  then with height 999: the queue has length 1 and its entry has height 10.
\<close>

theorem receive_tracked_head_dropped:
  "targetSet (snd s) (Head ci) \<noteq> None \<Longrightarrow>
     receive s ci = (s, None) \<and> ReceiveHello s ci = (s, None) \<and>
     ReceiveOwnBlock s ci = (s, None) \<and> ReceiveGossipBlock s ci = (s, None)"
  by (simp add: receive_def ReceiveHello_def ReceiveOwnBlock_def ReceiveGossipBlock_def)

theorem receive_tracked_head_dropped_witness:
  "NewDispatcher ([] :: (nat, unit) memory) = Inr \<lparr>targetSet = Map.empty, targetQ = \<lparr>q = []\<rparr>\<rparr> \<and>
   (let s1 = fst (ReceiveHello ([], \<lparr>targetSet = Map.empty, targetQ = \<lparr>q = []\<rparr>\<rparr>)
                    \<lparr>Head = ''A'', Height = 10 :: nat, Origin = ()\<rparr>);
        r2 = ReceiveGossipBlock s1 \<lparr>Head = ''A'', Height = 999, Origin = ()\<rparr>
    in r2 = (s1, None) \<and>
       TargetQueue_Len (targetQ (snd (fst r2))) = 1 \<and>
       heights (fst (fst r2), q (targetQ (snd (fst r2)))) = [10])"
proof -
  let ?d = "\<lparr>targetSet = Map.empty, targetQ = \<lparr>q = []\<rparr>\<rparr>"
  let ?a = "\<lparr>Head = ''A'', Height = 10 :: nat, Origin = ()\<rparr>"
  let ?b = "\<lparr>Head = ''A'', Height = 999 :: nat, Origin = ()\<rparr>"
  have new: "NewDispatcher ([] :: (nat, unit) memory) = Inr ?d"
    by (simp add: NewDispatcher_def NewTargetQueue_def heap_Init_def rawQueue_Len_def quo_def
        init_loop.simps)
  have s1: "fst (ReceiveHello ([], ?d) ?a) =
      ([\<lparr>ChainInfo = ?a, index = 0\<rparr>],
       \<lparr>targetSet = [''A'' \<mapsto> ()], targetQ = \<lparr>q = [Some 0]\<rparr>\<rparr>)"
    by (simp add: ReceiveHello_def receive_def alloc_def TargetQueue_Push_def heap_Push_def
        rawQueue_Push_def set_index_def rawQueue_Len_def quo_def heap_up.simps)
  have "targetSet (snd (fst (ReceiveHello ([], ?d) ?a))) (Head ?b) \<noteq> None"
    by (simp add: s1)
  from receive_tracked_head_dropped [OF this] new show ?thesis
    by (simp add: s1 Let_def TargetQueue_Len_def heights_def)
qed

text \<open>
  C6. For a head that is not tracked yet, when TargetQueue.Push returns an error, receive
  returns that same error and the dedup set is as it was: the key is inserted only after
  a push that succeeded.
\<close>

theorem receive_push_error_propagates:
  "targetSet d (Head ci) = None \<Longrightarrow>
   TargetQueue_Push (m @ [\<lparr>ChainInfo = ci, index = 0\<rparr>], targetQ d) (Some (length m))
     = (s1, Some err) \<Longrightarrow>
     receive (m, d) ci = ((fst s1, d\<lparr>targetQ := snd s1\<rparr>), Some err) \<and>
     targetSet (snd (fst (receive (m, d) ci))) = targetSet d \<and>
     ReceiveHello (m, d) ci = receive (m, d) ci \<and>
     ReceiveOwnBlock (m, d) ci = receive (m, d) ci \<and>
     ReceiveGossipBlock (m, d) ci = receive (m, d) ci"
  by (simp add: receive_def alloc_def ReceiveHello_def ReceiveOwnBlock_def ReceiveGossipBlock_def)

theorem receive_push_error_propagates_witness:
  "receive ([], \<lparr>targetSet = Map.empty, targetQ = \<lparr>q = [None]\<rparr>\<rparr>)
       \<lparr>Head = ''A'', Height = 1 :: nat, Origin = ()\<rparr>
     = (([\<lparr>ChainInfo = \<lparr>Head = ''A'', Height = 1, Origin = ()\<rparr>, index = 1\<rparr>],
         \<lparr>targetSet = Map.empty, targetQ = \<lparr>q = [None, Some 0]\<rparr>\<rparr>), Some errBadPush)"
proof -
  let ?ci = "\<lparr>Head = ''A'', Height = 1 :: nat, Origin = ()\<rparr>"
  let ?d = "\<lparr>targetSet = Map.empty, targetQ = \<lparr>q = [None]\<rparr>\<rparr>"
  have push: "TargetQueue_Push ([] @ [\<lparr>ChainInfo = ?ci, index = 0\<rparr>], targetQ ?d)
       (Some (length ([] :: (nat, unit) memory)))
     = (([\<lparr>ChainInfo = ?ci, index = 1\<rparr>], \<lparr>q = [None, Some 0]\<rparr>), Some errBadPush)"
    by (simp add: TargetQueue_Push_def heap_Push_def rawQueue_Push_def set_index_def
        rawQueue_Len_def quo_def rawQueue_Less_def elem_at_def deref_def heap_up.simps)
  have "targetSet ?d (Head ?ci) = None" by simp
  from receive_push_error_propagates [OF this push] show ?thesis by simp
qed

end
